theory Spec2Isabelle
  imports Complex_Main
begin

section \<open>Python values\<close>

text \<open>
  The extractors of \<^verbatim>\<open>src/extractors/base.py\<close> move Python values around: query
  parameters, JSON documents, metadata entries. A \<^verbatim>\<open>datetime\<close> is the tuple of its
  fields. A dictionary is an association list with distinct keys, in insertion order,
  as Python's \<^verbatim>\<open>dict\<close> is. Strings are byte strings: \<^verbatim>\<open>lower\<close> below is the ASCII
  part of \<^verbatim>\<open>str.lower\<close>, and a float is a real number (no NaN, no infinities).
\<close>

datatype datetime = Datetime nat nat nat nat nat nat nat

datatype pyval =
    PNone
  | PBool bool
  | PInt int
  | PFloat real
  | PStr string
  | PList "pyval list"
  | PDict "(string \<times> pyval) list"
  | PDatetime datetime

type_synonym pydict = "(string \<times> pyval) list"

text \<open>The exceptions that the code raises itself or lets through from a collaborator.\<close>

datatype error =
    ValueError string
  | TypeError
  | HTTPStatusError nat
  | JSONDecodeError
  | CollaboratorError string

text \<open>\<^verbatim>\<open>bool(v)\<close>, as \<^verbatim>\<open>if v:\<close> and \<^verbatim>\<open>a and b\<close> and \<^verbatim>\<open>a or b\<close> test it.\<close>

fun truthy :: "pyval \<Rightarrow> bool" where
  "truthy PNone = False"
| "truthy (PBool b) = b"
| "truthy (PInt i) = (i \<noteq> 0)"
| "truthy (PFloat r) = (r \<noteq> 0)"
| "truthy (PStr s) = (s \<noteq> [])"
| "truthy (PList xs) = (xs \<noteq> [])"
| "truthy (PDict d) = (d \<noteq> [])"
| "truthy (PDatetime t) = True"

text \<open>\<^verbatim>\<open>d.get(k, dflt)\<close> and \<^verbatim>\<open>d[k] = v\<close> (an old key keeps its position).\<close>

definition dict_get :: "pydict \<Rightarrow> string \<Rightarrow> pyval \<Rightarrow> pyval" where
  "dict_get d k dflt = (case map_of d k of Some v \<Rightarrow> v | None \<Rightarrow> dflt)"

fun dict_setitem :: "string \<Rightarrow> pyval \<Rightarrow> pydict \<Rightarrow> pydict" where
  "dict_setitem k v [] = [(k, v)]"
| "dict_setitem k v ((k', v') # kvs) =
     (if k' = k then (k, v) # kvs else (k', v') # dict_setitem k v kvs)"

text \<open>
  What \<^verbatim>\<open>list.extend(items)\<close> iterates over: the elements of a list, the keys of a
  dictionary, the characters of a string; anything else is not iterable.
\<close>

fun iterate :: "pyval \<Rightarrow> error + pyval list" where
  "iterate (PList xs) = Inr xs"
| "iterate (PDict d) = Inr (map (\<lambda>kv. PStr (fst kv)) d)"
| "iterate (PStr s) = Inr (map (\<lambda>c. PStr [c]) s)"
| "iterate v = Inl TypeError"

definition list_extend :: "pyval list \<Rightarrow> pyval \<Rightarrow> error + pyval list" where
  "list_extend xs items = (case iterate items of Inl e \<Rightarrow> Inl e | Inr ys \<Rightarrow> Inr (xs @ ys))"

text \<open>\<^verbatim>\<open>str.lower\<close>, \<^verbatim>\<open>str.rsplit(sep, 1)\<close>, \<^verbatim>\<open>str.rstrip(c)\<close> and \<^verbatim>\<open>str.lstrip(c)\<close>.\<close>

definition lower_char :: "char \<Rightarrow> char" where
  "lower_char c =
     (let n = (of_char c :: nat) in if 65 \<le> n \<and> n \<le> 90 then char_of (n + 32) else c)"

definition lower :: "string \<Rightarrow> string" where
  "lower s = map lower_char s"

definition rsplit1 :: "char \<Rightarrow> string \<Rightarrow> string list" where
  "rsplit1 sep s =
     (if sep \<in> set s
      then [rev (tl (dropWhile (\<lambda>c. c \<noteq> sep) (rev s))), rev (takeWhile (\<lambda>c. c \<noteq> sep) (rev s))]
      else [s])"

definition rstrip :: "char \<Rightarrow> string \<Rightarrow> string" where
  "rstrip c s = rev (dropWhile (\<lambda>x. x = c) (rev s))"

definition lstrip :: "char \<Rightarrow> string \<Rightarrow> string" where
  "lstrip c s = dropWhile (\<lambda>x. x = c) s"

section \<open>ExtractionResult\<close>

text \<open>
  A \<^verbatim>\<open>pandas.DataFrame\<close> is its list of rows; \<^verbatim>\<open>len(df)\<close> counts them. How pandas
  infers columns from the rows is outside the model.
\<close>

datatype DataFrame = DataFrame (rows: "pyval list")

definition len :: "DataFrame \<Rightarrow> nat" where
  "len df = length (rows df)"

record ExtractionResult =
  data :: DataFrame
  source :: string
  extracted_at :: datetime
  metadata :: pydict
  record_count :: int

definition post_init :: "ExtractionResult \<Rightarrow> ExtractionResult" where
  "post_init self = self\<lparr>record_count := int (len (data self))\<rparr>"

text \<open>
  The dataclass constructor: the generated \<^verbatim>\<open>__init__\<close> stores its five arguments and
  then runs \<^verbatim>\<open>__post_init__\<close>. The extractors leave \<^verbatim>\<open>extracted_at\<close> to its default,
  the clock's \<^verbatim>\<open>utcnow()\<close>, which the model takes as the argument \<open>now\<close>, and
  \<^verbatim>\<open>record_count\<close> to its default 0.
\<close>

definition ExtractionResult_init ::
  "DataFrame \<Rightarrow> string \<Rightarrow> datetime \<Rightarrow> pydict \<Rightarrow> int \<Rightarrow> ExtractionResult" where
  "ExtractionResult_init d s t m rc =
     post_init \<lparr>data = d, source = s, extracted_at = t, metadata = m, record_count = rc\<rparr>"

section \<open>BaseExtractor\<close>

text \<open>
  The logger only writes diagnostics and is left out. An extractor's \<^verbatim>\<open>extract\<close> is
  passed to the inherited \<^verbatim>\<open>extract_incremental\<close> as the method that \<^verbatim>\<open>self.extract()\<close>
  dispatches to.
\<close>

record BaseExtractor =
  name :: string

definition extract_incremental :: "(unit \<Rightarrow> 'r) \<Rightarrow> datetime option \<Rightarrow> 'r" where
  "extract_incremental extract since = extract ()"

definition validate :: "ExtractionResult \<Rightarrow> bool" where
  "validate result = (len (data result) > 0)"

section \<open>DatabaseExtractor\<close>

text \<open>
  The query engine \<^verbatim>\<open>pandas.read_sql\<close> is a collaborator: a function of the query
  text, the connection string and the parameter bindings, which returns a table or
  raises. Each extraction returns the list of the calls it made to the engine next to
  its result.
\<close>

type_synonym sql_call = "string \<times> string \<times> pydict"

type_synonym read_sql = "string \<Rightarrow> string \<Rightarrow> pydict \<Rightarrow> error + DataFrame"

record DatabaseExtractor = BaseExtractor +
  connection_string :: string
  query :: string
  params :: pydict

definition DatabaseExtractor_init ::
  "string \<Rightarrow> string \<Rightarrow> string \<Rightarrow> pydict option \<Rightarrow> DatabaseExtractor" where
  "DatabaseExtractor_init nm conn q ps =
     \<lparr>name = nm, connection_string = conn, query = q,
      params = (case ps of None \<Rightarrow> [] | Some d \<Rightarrow> if d \<noteq> [] then d else [])\<rparr>"

definition DatabaseExtractor_extract ::
  "read_sql \<Rightarrow> datetime \<Rightarrow> DatabaseExtractor \<Rightarrow> sql_call list \<times> (error + ExtractionResult)" where
  "DatabaseExtractor_extract engine now self =
     ([(query self, connection_string self, params self)],
      case engine (query self) (connection_string self) (params self) of
        Inl e \<Rightarrow> Inl e
      | Inr df \<Rightarrow>
          Inr (ExtractionResult_init df (''database:'' @ name self) now
                 [(''query'', PStr (query self)), (''params'', PDict (params self))] 0))"

text \<open>
  The f-string of the incremental query, with the line breaks and the indentation it has
  in the source: a line break and 16 spaces before \<^verbatim>\<open>SELECT\<close> and before
  \<^verbatim>\<open>WHERE\<close>, a line break and 12 spaces at the end.
\<close>

definition incremental_query :: "string \<Rightarrow> string \<Rightarrow> string" where
  "incremental_query q timestamp_column =
     CHR 0x0A # replicate 16 CHR '' '' @ ''SELECT * FROM ('' @ q @ '') AS base'' @
     CHR 0x0A # replicate 16 CHR '' '' @ ''WHERE '' @ timestamp_column @ '' > :since'' @
     CHR 0x0A # replicate 12 CHR '' ''"

text \<open>
  \<^verbatim>\<open>since\<close> is \<^verbatim>\<open>Optional[datetime]\<close>, and every \<^verbatim>\<open>datetime\<close> is truthy, so
  \<^verbatim>\<open>if since:\<close> tests for \<^verbatim>\<open>None\<close>. \<^verbatim>\<open>isoformat\<close> is the standard library's
  rendering of a \<^verbatim>\<open>datetime\<close>, an argument of the model.
\<close>

definition DatabaseExtractor_extract_incremental ::
  "read_sql \<Rightarrow> (datetime \<Rightarrow> string) \<Rightarrow> datetime \<Rightarrow> DatabaseExtractor \<Rightarrow> datetime option \<Rightarrow> string
     \<Rightarrow> sql_call list \<times> (error + ExtractionResult)" where
  "DatabaseExtractor_extract_incremental engine isoformat now self since timestamp_column =
     (let (incremental_query, params) =
            (case since of
               Some t \<Rightarrow>
                 (incremental_query (query self) timestamp_column,
                  dict_setitem ''since'' (PDatetime t) (params self))
             | None \<Rightarrow> (query self, params self))
      in ([(incremental_query, connection_string self, params)],
          case engine incremental_query (connection_string self) params of
            Inl e \<Rightarrow> Inl e
          | Inr df \<Rightarrow>
              Inr (ExtractionResult_init df (''database:'' @ name self) now
                     [(''incremental'', PBool True),
                      (''since'', case since of Some t \<Rightarrow> PStr (isoformat t) | None \<Rightarrow> PNone)] 0)))"

section \<open>FileExtractor\<close>

text \<open>
  The four pandas readers are collaborators, named by the function the code calls. Each
  extraction returns the list of the reader calls it made next to its result.
\<close>

datatype decoder = read_csv | read_json | read_parquet | read_excel

type_synonym decoder_call = "decoder \<times> string \<times> pydict"

type_synonym decoders = "decoder \<Rightarrow> string \<Rightarrow> pydict \<Rightarrow> error + DataFrame"

definition SUPPORTED_FORMATS :: "string list" where
  "SUPPORTED_FORMATS = [''csv'', ''json'', ''parquet'', ''excel'']"

record FileExtractor = BaseExtractor +
  file_path :: string
  file_format :: string
  read_options :: pydict

definition detect_format :: "string \<Rightarrow> string" where
  "detect_format path =
     (let ext = lower (last (rsplit1 CHR ''.'' path))
      in if ext \<in> set [''xlsx'', ''xls''] then ''excel'' else ext)"

text \<open>\<^verbatim>\<open>file_format or self._detect_format(file_path)\<close>: an empty string is falsy too.\<close>

definition FileExtractor_init ::
  "string \<Rightarrow> string \<Rightarrow> string option \<Rightarrow> pydict \<Rightarrow> FileExtractor" where
  "FileExtractor_init nm path fmt opts =
     \<lparr>name = nm, file_path = path,
      file_format = (case fmt of None \<Rightarrow> detect_format path
                     | Some f \<Rightarrow> if f \<noteq> [] then f else detect_format path),
      read_options = opts\<rparr>"

definition FileExtractor_extract ::
  "decoders \<Rightarrow> datetime \<Rightarrow> FileExtractor \<Rightarrow> decoder_call list \<times> (error + ExtractionResult)" where
  "FileExtractor_extract pd now self =
     (let (calls, df) =
            (if file_format self = ''csv'' then
               ([(read_csv, file_path self, read_options self)],
                pd read_csv (file_path self) (read_options self))
             else if file_format self = ''json'' then
               ([(read_json, file_path self, read_options self)],
                pd read_json (file_path self) (read_options self))
             else if file_format self = ''parquet'' then
               ([(read_parquet, file_path self, read_options self)],
                pd read_parquet (file_path self) (read_options self))
             else if file_format self = ''excel'' then
               ([(read_excel, file_path self, read_options self)],
                pd read_excel (file_path self) (read_options self))
             else ([], Inl (ValueError (''Unsupported format: '' @ file_format self))))
      in (calls,
          case df of
            Inl e \<Rightarrow> Inl e
          | Inr df \<Rightarrow>
              Inr (ExtractionResult_init df (''file:'' @ file_path self) now
                     [(''format'', PStr (file_format self)), (''path'', PStr (file_path self))] 0)))"

definition FileExtractor_extract_incremental ::
  "decoders \<Rightarrow> datetime \<Rightarrow> FileExtractor \<Rightarrow> datetime option
     \<Rightarrow> decoder_call list \<times> (error + ExtractionResult)" where
  "FileExtractor_extract_incremental pd now self since =
     extract_incremental (\<lambda>_. FileExtractor_extract pd now self) since"

section \<open>APIExtractor\<close>

text \<open>
  \<^verbatim>\<open>extract\<close> copies \<^verbatim>\<open>self.params\<close> and writes the cursor into the copy, so whether
  the extractor's own dictionary changes depends on which object is written. The
  dictionaries are therefore objects in a store, addressed by position, and the
  extractor's \<^verbatim>\<open>headers\<close> and \<^verbatim>\<open>params\<close> fields hold addresses
  (\<open>headers_ref\<close>, \<open>params_ref\<close>). A new object is
  allocated at the end of the store.
\<close>

type_synonym addr = nat

type_synonym store = "pydict list"

definition alloc :: "store \<Rightarrow> pydict \<Rightarrow> addr \<times> store" where
  "alloc h d = (length h, h @ [d])"

definition dict_copy :: "store \<Rightarrow> addr \<Rightarrow> addr \<times> store" where
  "dict_copy h a = alloc h (h ! a)"

definition store_setitem :: "store \<Rightarrow> addr \<Rightarrow> string \<Rightarrow> pyval \<Rightarrow> store" where
  "store_setitem h a k v = h[a := dict_setitem k v (h ! a)]"

text \<open>
  The HTTP client is a collaborator. A request is the URL, the headers and the query
  parameters that \<^verbatim>\<open>client.get\<close> is called with; the server's answer may depend on the
  requests made before. \<^verbatim>\<open>client.get\<close> returns a response or raises a transport
  error; the response has a status code and a body, which \<^verbatim>\<open>response.json()\<close> parses
  (\<open>None\<close>: the body is not JSON). \<^verbatim>\<open>raise_for_status\<close> raises on every status that
  is not 2xx.
\<close>

type_synonym request = "string \<times> pydict \<times> pydict"

record response =
  status_code :: nat
  json :: "pyval option"

type_synonym http_client = "request list \<Rightarrow> request \<Rightarrow> error + response"

definition is_success :: "response \<Rightarrow> bool" where
  "is_success r = (200 \<le> status_code r \<and> status_code r < 300)"

record APIExtractor = BaseExtractor +
  base_url :: string
  endpoint :: string
  headers_ref :: addr
  params_ref :: addr
  pagination_key :: "string option"

text \<open>\<^verbatim>\<open>d or {}\<close> for an optional dictionary: a missing or empty one gives a new empty one.\<close>

definition or_empty :: "store \<Rightarrow> addr option \<Rightarrow> addr \<times> store" where
  "or_empty h r =
     (case r of
        None \<Rightarrow> alloc h []
      | Some a \<Rightarrow> if h ! a \<noteq> [] then (a, h) else alloc h [])"

definition APIExtractor_init ::
  "string \<Rightarrow> string \<Rightarrow> string \<Rightarrow> addr option \<Rightarrow> addr option \<Rightarrow> string option \<Rightarrow> store
     \<Rightarrow> APIExtractor \<times> store" where
  "APIExtractor_init nm url ep hdrs ps key h =
     (let (ha, h1) = or_empty h hdrs;
          (pa, h2) = or_empty h1 ps
      in (\<lparr>name = nm, base_url = rstrip CHR ''/'' url, endpoint = lstrip CHR ''/'' ep,
           headers_ref = ha, params_ref = pa, pagination_key = key\<rparr>, h2))"

text \<open>
  \<^verbatim>\<open>self.pagination_key and data.get(self.pagination_key)\<close>: when it is truthy, the
  value \<^verbatim>\<open>data[self.pagination_key]\<close> that becomes the next cursor.
\<close>

definition next_cursor :: "string option \<Rightarrow> pydict \<Rightarrow> pyval option" where
  "next_cursor key d =
     (case key of
        None \<Rightarrow> None
      | Some k \<Rightarrow>
          if k \<noteq> [] \<and> truthy (dict_get d k PNone) then Some (dict_get d k PNone) else None)"

text \<open>
  One pass through the body of \<^verbatim>\<open>while True\<close>. The state is the store, the requests
  made so far and \<^verbatim>\<open>all_data\<close>; \<open>pa\<close> is the address of the local \<^verbatim>\<open>params\<close>. The pass
  ends the loop (\<open>Break\<close>, with the rows or the exception) or goes round again
  (\<open>Again\<close>). A body that is neither a list nor a dictionary changes nothing and goes
  round again.
\<close>

type_synonym loop_state = "store \<times> request list \<times> pyval list"

datatype pass = Break "store \<times> request list \<times> (error + pyval list)" | Again loop_state

definition loop_body ::
  "http_client \<Rightarrow> string \<Rightarrow> addr \<Rightarrow> string option \<Rightarrow> addr \<Rightarrow> loop_state \<Rightarrow> pass" where
  "loop_body client url ha key pa s =
     (case s of (h, reqs, all_data) \<Rightarrow>
        let req = (url, h ! ha, h ! pa); reqs' = reqs @ [req] in
        (case client reqs req of
          Inl e \<Rightarrow> Break (h, reqs', Inl e)
        | Inr resp \<Rightarrow>
            if \<not> is_success resp then Break (h, reqs', Inl (HTTPStatusError (status_code resp)))
            else
              (case json resp of
                 None \<Rightarrow> Break (h, reqs', Inl JSONDecodeError)
               | Some (PList xs) \<Rightarrow> Break (h, reqs', Inr (all_data @ xs))
               | Some (PDict d) \<Rightarrow>
                   (case list_extend all_data
                           (dict_get d ''data'' (dict_get d ''items'' (dict_get d ''results'' (PList [])))) of
                      Inl e \<Rightarrow> Break (h, reqs', Inl e)
                    | Inr all_data' \<Rightarrow>
                        (case next_cursor key d of
                           Some c \<Rightarrow> Again (store_setitem h pa ''cursor'' c, reqs', all_data')
                         | None \<Rightarrow> Break (h, reqs', Inr all_data')))
               | Some other \<Rightarrow> Again (h, reqs', all_data))))"

text \<open>The loop has no bound: \<open>None\<close> is a run that never leaves it.\<close>

partial_function (option) extract_loop ::
  "http_client \<Rightarrow> string \<Rightarrow> addr \<Rightarrow> string option \<Rightarrow> addr \<Rightarrow> loop_state
     \<Rightarrow> (store \<times> request list \<times> (error + pyval list)) option" where
  "extract_loop client url ha key pa s =
     (case loop_body client url ha key pa s of
        Break r \<Rightarrow> Some r
      | Again s' \<Rightarrow> extract_loop client url ha key pa s')"

definition APIExtractor_extract ::
  "http_client \<Rightarrow> datetime \<Rightarrow> APIExtractor \<Rightarrow> store
     \<Rightarrow> (store \<times> request list \<times> (error + ExtractionResult)) option" where
  "APIExtractor_extract client now self h =
     (let url = base_url self @ ''/'' @ endpoint self;
          (pa, h1) = dict_copy h (params_ref self)
      in case extract_loop client url (headers_ref self) (pagination_key self) pa (h1, [], []) of
           None \<Rightarrow> None
         | Some (h', reqs, Inl e) \<Rightarrow> Some (h', reqs, Inl e)
         | Some (h', reqs, Inr all_data) \<Rightarrow>
             Some (h', reqs,
                   Inr (ExtractionResult_init (DataFrame all_data) (''api:'' @ name self) now
                          [(''url'', PStr url)] 0)))"

definition APIExtractor_extract_incremental ::
  "http_client \<Rightarrow> datetime \<Rightarrow> APIExtractor \<Rightarrow> datetime option \<Rightarrow> store
     \<Rightarrow> (store \<times> request list \<times> (error + ExtractionResult)) option" where
  "APIExtractor_extract_incremental client now self since h =
     extract_incremental (\<lambda>_. APIExtractor_extract client now self h) since"

section \<open>Strings\<close>

lemma last_rsplit1_suffix: "c \<notin> set e \<Longrightarrow> last (rsplit1 c (p @ c # e)) = e"
proof -
  assume a: "c \<notin> set e"
  have "takeWhile (\<lambda>x. x \<noteq> c) (rev e @ c # rev p) =
          rev e @ takeWhile (\<lambda>x. x \<noteq> c) (c # rev p)"
    by (rule takeWhile_append2) (use a in auto)
  then have "takeWhile (\<lambda>x. x \<noteq> c) (rev e @ c # rev p) = rev e"
    by simp
  then show ?thesis by (simp add: rsplit1_def)
qed

lemma last_rsplit1_whole: "c \<notin> set s \<Longrightarrow> last (rsplit1 c s) = s"
  by (simp add: rsplit1_def)

lemma lower_char_dot: "lower_char c = CHR ''.'' \<longleftrightarrow> c = CHR ''.''"
proof (cases "65 \<le> (of_char c :: nat) \<and> (of_char c :: nat) \<le> 90")
  case True
  then have "of_char (lower_char c) = (of_char c :: nat) + 32"
    by (simp add: lower_char_def Let_def)
  moreover have "(of_char (CHR ''.'') :: nat) = 46" by simp
  ultimately show ?thesis using True by auto
next
  case False
  then show ?thesis by (auto simp add: lower_char_def Let_def)
qed

lemma lower_has_dot: "CHR ''.'' \<in> set (lower s) \<longleftrightarrow> CHR ''.'' \<in> set s"
proof -
  have "CHR ''.'' \<in> set (lower s) \<longleftrightarrow> (\<exists>c \<in> set s. CHR ''.'' = lower_char c)"
    by (auto simp add: lower_def)
  then show ?thesis by (metis lower_char_dot)
qed

lemma lower_char_idem: "lower_char (lower_char c) = lower_char c"
  by (auto simp add: lower_char_def Let_def)

lemma lower_idem: "lower (lower s) = lower s"
  by (simp add: lower_def lower_char_idem)

section \<open>Format resolution of the FileExtractor\<close>

lemma detect_format_suffix:
  "CHR ''.'' \<notin> set ext \<Longrightarrow>
   detect_format (stem @ ''.'' @ ext) =
     (if lower ext = ''xlsx'' \<or> lower ext = ''xls'' then ''excel'' else lower ext)"
  using last_rsplit1_suffix [of "CHR ''.''" ext stem]
  by (simp add: detect_format_def)

lemma detect_format_whole:
  "CHR ''.'' \<notin> set path \<Longrightarrow>
   detect_format path =
     (if lower path = ''xlsx'' \<or> lower path = ''xls'' then ''excel'' else lower path)"
  by (simp add: detect_format_def last_rsplit1_whole)

lemma file_format_detected:
  "fmt = None \<or> fmt = Some '''' \<Longrightarrow>
   file_format (FileExtractor_init nm path fmt opts) = detect_format path"
  by (auto simp add: FileExtractor_init_def)

text \<open>
  C5. A FileExtractor constructed without a format (\<^verbatim>\<open>None\<close>, or the empty string,
  which is falsy as well) on a path \<open>stem.ext\<close>, where \<open>ext\<close> is what follows the last
  dot: the format is \<open>excel\<close> when \<open>ext\<close> is \<open>xlsx\<close> or \<open>xls\<close> in any letter case, and
  the lowercased \<open>ext\<close> otherwise; the letter case of \<open>ext\<close> makes no difference.
\<close>

theorem format_resolution_case_insensitive:
  assumes "fmt = None \<or> fmt = Some ''''" and "CHR ''.'' \<notin> set ext"
  shows "file_format (FileExtractor_init nm (stem @ ''.'' @ ext) fmt opts) =
           (if lower ext = ''xlsx'' \<or> lower ext = ''xls'' then ''excel'' else lower ext)
         \<and> file_format (FileExtractor_init nm (stem @ ''.'' @ ext) fmt opts) =
           file_format (FileExtractor_init nm (stem @ ''.'' @ lower ext) fmt opts)"
proof -
  have 1: "CHR ''.'' \<notin> set (lower ext)"
    using assms(2) by (simp add: lower_has_dot)
  show ?thesis
    using detect_format_suffix [OF assms(2), of stem] detect_format_suffix [OF 1, of stem]
    by (simp add: lower_idem file_format_detected [OF assms(1)])
qed

theorem format_resolution_case_insensitive_witness:
  "file_format (FileExtractor_init ''sales'' ''/data/Report.XlSx'' None []) = ''excel''
   \<and> file_format (FileExtractor_init ''sales'' ''/data/Report.Csv'' (Some '''') []) = ''csv''"
proof -
  have d1: "CHR ''.'' \<notin> set ''XlSx''" and d2: "CHR ''.'' \<notin> set ''Csv''" by simp_all
  have l1: "lower ''XlSx'' = ''xlsx''" and l2: "lower ''Csv'' = ''csv''" by code_simp+
  have "file_format (FileExtractor_init ''sales'' (''/data/Report'' @ ''.'' @ ''XlSx'') None []) =
          ''excel''"
    using format_resolution_case_insensitive [OF _ d1, of None "''sales''" "''/data/Report''" "[]"]
    by (simp add: l1)
  moreover
  have "file_format (FileExtractor_init ''sales'' (''/data/Report'' @ ''.'' @ ''Csv'') (Some '''') []) =
          ''csv''"
    using format_resolution_case_insensitive [OF _ d2, of "Some ''''" "''sales''" "''/data/Report''" "[]"]
    by (simp add: l2)
  ultimately show ?thesis by simp
qed

section \<open>Dispatch of the FileExtractor\<close>

text \<open>
  C6. \<^verbatim>\<open>FileExtractor.extract\<close> with a format outside csv, json, parquet, excel
  raises the unsupported-format error (the code's \<^verbatim>\<open>ValueError\<close>) and calls no reader;
  with one of the four formats it calls the reader of that format, once, on the
  extractor's path and options, and its outcome is that reader's outcome, wrapped.
\<close>

theorem unsupported_format_before_decoding:
  "(file_format self \<notin> set SUPPORTED_FORMATS \<longrightarrow>
      FileExtractor_extract pd now self =
        ([], Inl (ValueError (''Unsupported format: '' @ file_format self))))
   \<and> (file_format self = ''csv'' \<longrightarrow>
      fst (FileExtractor_extract pd now self) = [(read_csv, file_path self, read_options self)])
   \<and> (file_format self = ''json'' \<longrightarrow>
      fst (FileExtractor_extract pd now self) = [(read_json, file_path self, read_options self)])
   \<and> (file_format self = ''parquet'' \<longrightarrow>
      fst (FileExtractor_extract pd now self) = [(read_parquet, file_path self, read_options self)])
   \<and> (file_format self = ''excel'' \<longrightarrow>
      fst (FileExtractor_extract pd now self) = [(read_excel, file_path self, read_options self)])
   \<and> (\<forall>dec path opts. (dec, path, opts) \<in> set (fst (FileExtractor_extract pd now self)) \<longrightarrow>
      snd (FileExtractor_extract pd now self) =
        (case pd dec path opts of
           Inl e \<Rightarrow> Inl e
         | Inr df \<Rightarrow>
             Inr (ExtractionResult_init df (''file:'' @ file_path self) now
                    [(''format'', PStr (file_format self)), (''path'', PStr (file_path self))] 0)))"
  by (simp add: FileExtractor_extract_def SUPPORTED_FORMATS_def)

theorem unsupported_format_before_decoding_witness:
  "FileExtractor_extract (\<lambda>dec path opts. Inr (DataFrame [PInt 1]))
       (Datetime 2024 5 17 12 30 0 0) (FileExtractor_init ''f'' ''a.xml'' None []) =
     ([], Inl (ValueError ''Unsupported format: xml''))
   \<and> fst (FileExtractor_extract (\<lambda>dec path opts. Inr (DataFrame [PInt 1]))
       (Datetime 2024 5 17 12 30 0 0) (FileExtractor_init ''f'' ''a.csv'' None [])) =
     [(read_csv, ''a.csv'', [])]"
proof -
  let ?pd = "\<lambda>(dec::decoder) (path::string) (opts::pydict). (Inr (DataFrame [PInt 1]) :: error + DataFrame)"
  let ?now = "Datetime 2024 5 17 12 30 0 0"
  have f1: "file_format (FileExtractor_init ''f'' ''a.xml'' None []) = ''xml''"
    and f2: "file_format (FileExtractor_init ''f'' ''a.csv'' None []) = ''csv''"
    by code_simp+
  have p2: "file_path (FileExtractor_init ''f'' ''a.csv'' None []) = ''a.csv''"
    and o2: "read_options (FileExtractor_init ''f'' ''a.csv'' None []) = []"
    by (simp_all add: FileExtractor_init_def)
  have n1: "file_format (FileExtractor_init ''f'' ''a.xml'' None []) \<notin> set SUPPORTED_FORMATS"
    by (simp add: f1 SUPPORTED_FORMATS_def)
  show ?thesis
    using unsupported_format_before_decoding [of "FileExtractor_init ''f'' ''a.xml'' None []" ?pd ?now]
      unsupported_format_before_decoding [of "FileExtractor_init ''f'' ''a.csv'' None []" ?pd ?now]
      n1
    by (simp add: f1 f2 p2 o2)
qed

section \<open>Paths without a dot\<close>

text \<open>
  C10, as stated, fails at the path \<open>xlsx\<close>: it has no dot, its format is \<open>excel\<close>
  and not the lowercased path, \<open>xlsx\<close> is not a supported format name, and
  \<^verbatim>\<open>extract\<close> calls the Excel reader instead of raising.
\<close>

theorem dotless_path_counterexample:
  "CHR ''.'' \<notin> set ''xlsx''
   \<and> file_format (FileExtractor_init ''f'' ''xlsx'' None []) = ''excel''
   \<and> lower ''xlsx'' = ''xlsx''
   \<and> ''xlsx'' \<notin> set SUPPORTED_FORMATS
   \<and> FileExtractor_extract (\<lambda>dec path opts. Inr (DataFrame [])) (Datetime 2024 5 17 12 30 0 0)
        (FileExtractor_init ''f'' ''xlsx'' None []) =
      ([(read_excel, ''xlsx'', [])],
       Inr (ExtractionResult_init (DataFrame []) ''file:xlsx'' (Datetime 2024 5 17 12 30 0 0)
              [(''format'', PStr ''excel''), (''path'', PStr ''xlsx'')] 0))"
proof -
  have l: "lower ''xlsx'' = ''xlsx''" by code_simp
  have f: "FileExtractor_init ''f'' ''xlsx'' None [] =
     \<lparr>name = ''f'', file_path = ''xlsx'', file_format = ''excel'', read_options = []\<rparr>"
    by (simp add: FileExtractor_init_def detect_format_whole l)
  show ?thesis
    by (simp add: f l SUPPORTED_FORMATS_def FileExtractor_extract_def)
qed

text \<open>
  C10, amended. A FileExtractor constructed without a format on a path with no dot: the
  format is the whole path lowercased, except that a path spelling \<open>xlsx\<close> or \<open>xls\<close>
  (in any letter case) gives \<open>excel\<close>. \<^verbatim>\<open>extract\<close> raises the unsupported-format error
  unless the lowercased path is one of csv, json, parquet, excel, xlsx, xls, and then it
  calls one reader.
\<close>

theorem dotless_path_format:
  assumes "fmt = None \<or> fmt = Some ''''" and "CHR ''.'' \<notin> set path"
  shows "file_format (FileExtractor_init nm path fmt opts) =
           (if lower path = ''xlsx'' \<or> lower path = ''xls'' then ''excel'' else lower path)
         \<and> (lower path \<notin> set [''csv'', ''json'', ''parquet'', ''excel'', ''xlsx'', ''xls''] \<longrightarrow>
              FileExtractor_extract pd now (FileExtractor_init nm path fmt opts) =
                ([], Inl (ValueError (''Unsupported format: '' @ lower path))))
         \<and> (lower path \<in> set [''csv'', ''json'', ''parquet'', ''excel'', ''xlsx'', ''xls''] \<longrightarrow>
              length (fst (FileExtractor_extract pd now (FileExtractor_init nm path fmt opts))) = 1)"
proof -
  have f: "file_format (FileExtractor_init nm path fmt opts) =
           (if lower path = ''xlsx'' \<or> lower path = ''xls'' then ''excel'' else lower path)"
    using assms by (simp add: file_format_detected detect_format_whole)
  show ?thesis
    unfolding f FileExtractor_extract_def Let_def by (auto simp add: f)
qed

theorem dotless_path_format_witness:
  "file_format (FileExtractor_init ''f'' ''README'' None []) = ''readme''
   \<and> FileExtractor_extract (\<lambda>dec path opts. Inr (DataFrame [])) (Datetime 2024 5 17 12 30 0 0)
        (FileExtractor_init ''f'' ''README'' None []) =
      ([], Inl (ValueError ''Unsupported format: readme''))
   \<and> length (fst (FileExtractor_extract (\<lambda>dec path opts. Inr (DataFrame [])) (Datetime 2024 5 17 12 30 0 0)
        (FileExtractor_init ''f'' ''XLS'' None []))) = 1"
proof -
  let ?pd = "\<lambda>(dec::decoder) (path::string) (opts::pydict). (Inr (DataFrame []) :: error + DataFrame)"
  let ?now = "Datetime 2024 5 17 12 30 0 0"
  have d1: "CHR ''.'' \<notin> set ''README''" and d2: "CHR ''.'' \<notin> set ''XLS''" by simp_all
  have l1: "lower ''README'' = ''readme''" and l2: "lower ''XLS'' = ''xls''" by code_simp+
  show ?thesis
    using dotless_path_format [OF _ d1, of None "''f''" "[]" ?pd ?now]
      dotless_path_format [OF _ d2, of None "''f''" "[]" ?pd ?now]
    by (simp add: l1 l2)
qed

section \<open>Construction of an ExtractionResult\<close>

lemma record_count_init: "record_count (ExtractionResult_init d s t m rc) = int (len d)"
  by (simp add: ExtractionResult_init_def post_init_def)

lemma data_init: "data (ExtractionResult_init d s t m rc) = d"
  by (simp add: ExtractionResult_init_def post_init_def)



lemma api_result_shape:
  "APIExtractor_extract client now self h = Some (h', reqs, Inr r) \<Longrightarrow>
   \<exists>all_data. r = ExtractionResult_init (DataFrame all_data) (''api:'' @ name self) now
                    [(''url'', PStr (base_url self @ ''/'' @ endpoint self))] 0"
  by (auto simp add: APIExtractor_extract_def Let_def split: prod.splits option.splits sum.splits)

text \<open>
  C8. The constructor of \<^verbatim>\<open>ExtractionResult\<close> sets \<^verbatim>\<open>record_count\<close> to the number of
  rows of \<^verbatim>\<open>data\<close>, whatever \<^verbatim>\<open>record_count\<close> it was given, and so every result that
  one of the extractors returns has \<^verbatim>\<open>record_count\<close> equal to the number of its rows.
\<close>

theorem record_count_is_row_count:
  "record_count (ExtractionResult_init d s t m rc) = int (len d)
   \<and> data (ExtractionResult_init d s t m rc) = d
   \<and> (\<forall>r. snd (FileExtractor_extract pd now fself) = Inr r \<longrightarrow> record_count r = int (len (data r)))
   \<and> (\<forall>r. snd (DatabaseExtractor_extract engine now dself) = Inr r \<longrightarrow>
         record_count r = int (len (data r)))
   \<and> (\<forall>r. snd (DatabaseExtractor_extract_incremental engine isoformat now dself since col) = Inr r \<longrightarrow>
         record_count r = int (len (data r)))
   \<and> (\<forall>h' reqs r. APIExtractor_extract client now aself h = Some (h', reqs, Inr r) \<longrightarrow>
         record_count r = int (len (data r)))"
proof -
  have fl: "\<forall>r. snd (FileExtractor_extract pd now fself) = Inr r \<longrightarrow>
                record_count r = int (len (data r))"
    by (auto simp add: FileExtractor_extract_def Let_def record_count_init data_init
        split: sum.splits if_splits)
  have db: "\<forall>r. snd (DatabaseExtractor_extract engine now dself) = Inr r \<longrightarrow>
              record_count r = int (len (data r))"
    by (auto simp add: DatabaseExtractor_extract_def record_count_init data_init split: sum.splits)
  have inc: "\<forall>r. snd (DatabaseExtractor_extract_incremental engine isoformat now dself since col) = Inr r
               \<longrightarrow> record_count r = int (len (data r))"
    by (auto simp add: DatabaseExtractor_extract_incremental_def Let_def record_count_init data_init
        split: sum.splits option.splits prod.splits)
  have api: "\<forall>h' reqs r. APIExtractor_extract client now aself h = Some (h', reqs, Inr r) \<longrightarrow>
               record_count r = int (len (data r))"
    using api_result_shape [of client now aself h] by (auto simp add: record_count_init data_init)
  show ?thesis
    using fl db inc api by (simp add: record_count_init data_init)
qed

theorem record_count_is_row_count_witness:
  "record_count (ExtractionResult_init (DataFrame [PInt 1, PInt 2]) ''file:x''
      (Datetime 2024 5 17 12 30 0 0) [] 7) = 2
   \<and> (case snd (FileExtractor_extract (\<lambda>dec path opts. Inr (DataFrame [PInt 1, PInt 2, PInt 3]))
         (Datetime 2024 5 17 12 30 0 0) (FileExtractor_init ''f'' ''a.csv'' (Some ''csv'') [])) of
         Inl e \<Rightarrow> False | Inr r \<Rightarrow> record_count r = 3)"
proof -
  let ?pd = "\<lambda>(dec::decoder) (path::string) (opts::pydict).
     (Inr (DataFrame [PInt 1, PInt 2, PInt 3]) :: error + DataFrame)"
  let ?now = "Datetime 2024 5 17 12 30 0 0"
  let ?self = "FileExtractor_init ''f'' ''a.csv'' (Some ''csv'') []"
  let ?r = "ExtractionResult_init (DataFrame [PInt 1, PInt 2, PInt 3]) ''file:a.csv'' ?now
              [(''format'', PStr ''csv''), (''path'', PStr ''a.csv'')] 0"
  have run: "snd (FileExtractor_extract ?pd ?now ?self) = Inr ?r"
    by (simp add: FileExtractor_extract_def FileExtractor_init_def)
  have "record_count ?r = int (len (data ?r))"
    using record_count_is_row_count [of _ _ _ _ _ ?pd ?now ?self] run by blast
  moreover have "len (data ?r) = 3"
    by (simp add: data_init len_def)
  moreover have "record_count (ExtractionResult_init (DataFrame [PInt 1, PInt 2]) ''file:x'' ?now [] 7)
      = int (len (DataFrame [PInt 1, PInt 2]))"
    using record_count_is_row_count [of "DataFrame [PInt 1, PInt 2]" "''file:x''" ?now "[]" 7] by blast
  ultimately show ?thesis
    by (simp add: run len_def)
qed

section \<open>Incremental extraction from a database\<close>

lemma map_of_dict_setitem: "map_of (dict_setitem k v d) = (map_of d)(k \<mapsto> v)"
  by (induction d) auto

text \<open>
  C2. \<^verbatim>\<open>extract_incremental\<close> with a timestamp \<open>T\<close> calls the query engine once, with the
  base query wrapped as \<^verbatim>\<open>SELECT * FROM (<base query>) AS base WHERE C > :since\<close> (laid out
  over three indented lines, as the f-string is in the source), with the extractor's
  connection string, and with the extractor's parameters extended by the binding of
  \<^verbatim>\<open>since\<close> to \<open>T\<close>; its outcome is the engine's outcome, wrapped.
\<close>

theorem incremental_query_rewriting:
  "DatabaseExtractor_extract_incremental engine isoformat now self (Some T) C =
     ([(incremental_query (query self) C, connection_string self,
        dict_setitem ''since'' (PDatetime T) (params self))],
      case engine (incremental_query (query self) C) (connection_string self)
             (dict_setitem ''since'' (PDatetime T) (params self)) of
        Inl e \<Rightarrow> Inl e
      | Inr df \<Rightarrow>
          Inr (ExtractionResult_init df (''database:'' @ name self) now
                 [(''incremental'', PBool True), (''since'', PStr (isoformat T))] 0))
   \<and> incremental_query (query self) C =
       [CHR 0x0A] @ replicate 16 CHR '' '' @ ''SELECT * FROM ('' @ query self @ '') AS base'' @
       [CHR 0x0A] @ replicate 16 CHR '' '' @ ''WHERE '' @ C @ '' > :since'' @
       [CHR 0x0A] @ replicate 12 CHR '' ''
   \<and> map_of (dict_setitem ''since'' (PDatetime T) (params self)) =
       (map_of (params self))(''since'' \<mapsto> PDatetime T)"
proof -
  have "DatabaseExtractor_extract_incremental engine isoformat now self (Some T) C =
     ([(incremental_query (query self) C, connection_string self,
        dict_setitem ''since'' (PDatetime T) (params self))],
      case engine (incremental_query (query self) C) (connection_string self)
             (dict_setitem ''since'' (PDatetime T) (params self)) of
        Inl e \<Rightarrow> Inl e
      | Inr df \<Rightarrow>
          Inr (ExtractionResult_init df (''database:'' @ name self) now
                 [(''incremental'', PBool True), (''since'', PStr (isoformat T))] 0))"
    by (simp add: DatabaseExtractor_extract_incremental_def cong: sum.case_cong)
  then show ?thesis
    by (simp add: incremental_query_def map_of_dict_setitem)
qed

theorem incremental_query_rewriting_witness:
  "fst (DatabaseExtractor_extract_incremental (\<lambda>q c p. Inr (DataFrame []))
          (\<lambda>t. ''2024-05-17T12:30:00'') (Datetime 2024 6 2 8 0 0 0)
          (DatabaseExtractor_init ''orders'' ''sqlite://'' ''SELECT a FROM t WHERE b = :b''
             (Some [(''b'', PInt 3)]))
          (Some (Datetime 2024 5 17 12 30 0 0)) ''updated_at'') =
     [(CHR 0x0A # ''                SELECT * FROM (SELECT a FROM t WHERE b = :b) AS base'' @
       CHR 0x0A # ''                WHERE updated_at > :since'' @
       CHR 0x0A # ''            '',
       ''sqlite://'',
       [(''b'', PInt 3), (''since'', PDatetime (Datetime 2024 5 17 12 30 0 0))])]"
proof -
  let ?self = "DatabaseExtractor_init ''orders'' ''sqlite://'' ''SELECT a FROM t WHERE b = :b''
             (Some [(''b'', PInt 3)])"
  have q: "query ?self = ''SELECT a FROM t WHERE b = :b''"
    and c: "connection_string ?self = ''sqlite://''"
    and p: "params ?self = [(''b'', PInt 3)]"
    by (simp_all add: DatabaseExtractor_init_def)
  have r16: "replicate 16 CHR '' '' = ''                ''"
    and r12: "replicate 12 CHR '' '' = ''            ''"
    by code_simp+
  show ?thesis
    using incremental_query_rewriting [of "\<lambda>q c p. Inr (DataFrame [])" "\<lambda>t. ''2024-05-17T12:30:00''"
        "Datetime 2024 6 2 8 0 0 0" ?self "Datetime 2024 5 17 12 30 0 0" "''updated_at''"]
    by (simp add: q c p r16 r12)
qed




section \<open>The pagination loop\<close>

lemma loop_body_list:
  assumes "client reqs (url, h ! ha, h ! pa) = Inr resp" and "is_success resp"
    and "json resp = Some (PList xs)"
  shows "loop_body client url ha key pa (h, reqs, all_data) =
           Break (h, reqs @ [(url, h ! ha, h ! pa)], Inr (all_data @ xs))"
  using assms by (simp add: loop_body_def Let_def)

lemma loop_body_dict:
  assumes "client reqs (url, h ! ha, h ! pa) = Inr resp" and "is_success resp"
    and "json resp = Some (PDict d)"
    and "dict_get d ''data'' (dict_get d ''items'' (dict_get d ''results'' (PList []))) = PList xs"
  shows "loop_body client url ha key pa (h, reqs, all_data) =
           (case next_cursor key d of
              Some c \<Rightarrow> Again (store_setitem h pa ''cursor'' c, reqs @ [(url, h ! ha, h ! pa)],
                              all_data @ xs)
            | None \<Rightarrow> Break (h, reqs @ [(url, h ! ha, h ! pa)], Inr (all_data @ xs)))"
  using assms by (simp add: loop_body_def Let_def list_extend_def)

lemma loop_body_Break:
  "loop_body client url ha key pa (h, reqs, all_data) = Break (h', reqs', r) \<Longrightarrow>
   h' = h \<and> reqs' = reqs @ [(url, h ! ha, h ! pa)]"
  by (auto simp add: loop_body_def Let_def
      split: sum.splits if_splits option.splits pyval.splits)

lemma loop_body_Again:
  "loop_body client url ha key pa (h, reqs, all_data) = Again (h', reqs', all_data') \<Longrightarrow>
   reqs' = reqs @ [(url, h ! ha, h ! pa)] \<and> length h' = length h
   \<and> (\<forall>a. a \<noteq> pa \<longrightarrow> h' ! a = h ! a)"
  by (auto simp add: loop_body_def Let_def store_setitem_def
      split: sum.splits if_splits option.splits pyval.splits)

lemma extract_loop_frame:
  assumes run: "extract_loop client url ha key pa (h, reqs, all_data) = Some (h', reqs', r)"
  shows "(\<exists>more. reqs' = reqs @ (url, h ! ha, h ! pa) # more) \<and> length h' = length h
     \<and> (\<forall>a. a \<noteq> pa \<longrightarrow> h' ! a = h ! a)"
proof -
  let ?P = "\<lambda>(client :: http_client) url ha (key :: string option) pa (s :: loop_state)
              (y :: store \<times> request list \<times> (error + pyval list)).
      (\<exists>more. fst (snd y) = fst (snd s) @ (url, fst s ! ha, fst s ! pa) # more)
      \<and> length (fst y) = length (fst s)
      \<and> (\<forall>a. a \<noteq> pa \<longrightarrow> fst y ! a = fst s ! a)"
  have "?P client url ha key pa (h, reqs, all_data) (h', reqs', r)"
  proof (rule extract_loop.raw_induct [where P = ?P, OF _ run])
    fix f and client :: http_client and url ha and key :: "string option" and pa
      and s :: loop_state and y :: "store \<times> request list \<times> (error + pyval list)"
    assume IH: "\<And>client url ha key pa s y. f client url ha key pa s = Some y \<Longrightarrow>
                  ?P client url ha key pa s y"
      and step: "(case loop_body client url ha key pa s of
                    Break r \<Rightarrow> Some r | Again s' \<Rightarrow> f client url ha key pa s') = Some y"
    obtain h reqs all_data where s: "s = (h, reqs, all_data)" by (cases s) auto
    obtain h' reqs' r where y: "y = (h', reqs', r)" by (cases y) auto
    show "?P client url ha key pa s y"
    proof (cases "loop_body client url ha key pa s")
      case (Break b)
      with step have "b = y" by simp
      with Break s y show ?thesis
        using loop_body_Break [of client url ha key pa h reqs all_data h' reqs' r] by simp
    next
      case (Again s')
      obtain h1 reqs1 all1 where s': "s' = (h1, reqs1, all1)" by (cases s') auto
      from Again s s' have
        r1: "reqs1 = reqs @ [(url, h ! ha, h ! pa)]" and l1: "length h1 = length h"
        and h1: "\<forall>a. a \<noteq> pa \<longrightarrow> h1 ! a = h ! a"
        using loop_body_Again [of client url ha key pa h reqs all_data h1 reqs1 all1] by auto
      from Again step have "f client url ha key pa s' = Some y" by simp
      from IH [OF this] s' y
      have ih: "(\<exists>more. reqs' = reqs1 @ (url, h1 ! ha, h1 ! pa) # more) \<and> length h' = length h1
          \<and> (\<forall>a. a \<noteq> pa \<longrightarrow> h' ! a = h1 ! a)"
        by simp
      then show ?thesis
        using r1 l1 h1 s y by auto
    qed
  qed
  then show ?thesis by simp
qed
lemma extract_loop_list:
  assumes "client reqs (url, h ! ha, h ! pa) = Inr resp" and "is_success resp"
    and "json resp = Some (PList xs)"
  shows "extract_loop client url ha key pa (h, reqs, all_data) =
           Some (h, reqs @ [(url, h ! ha, h ! pa)], Inr (all_data @ xs))"
  using assms
  by (subst extract_loop.simps)
    (simp add: loop_body_list [where client = client and resp = resp])

lemma extract_loop_last_page:
  assumes "client reqs (url, h ! ha, h ! pa) = Inr resp" and "is_success resp"
    and "json resp = Some (PDict d)"
    and "dict_get d ''data'' (dict_get d ''items'' (dict_get d ''results'' (PList []))) = PList xs"
    and "next_cursor key d = None"
  shows "extract_loop client url ha key pa (h, reqs, all_data) =
           Some (h, reqs @ [(url, h ! ha, h ! pa)], Inr (all_data @ xs))"
  using assms
  by (subst extract_loop.simps)
    (simp add: loop_body_dict [where client = client and resp = resp and d = d])

lemma extract_loop_next_page:
  assumes "client reqs (url, h ! ha, h ! pa) = Inr resp" and "is_success resp"
    and "json resp = Some (PDict d)"
    and "dict_get d ''data'' (dict_get d ''items'' (dict_get d ''results'' (PList []))) = PList xs"
    and "next_cursor key d = Some c"
  shows "extract_loop client url ha key pa (h, reqs, all_data) =
           extract_loop client url ha key pa
             (store_setitem h pa ''cursor'' c, reqs @ [(url, h ! ha, h ! pa)], all_data @ xs)"
  using assms
  by (subst extract_loop.simps)
    (simp add: loop_body_dict [where client = client and resp = resp and d = d])

lemma APIExtractor_extract_loop:
  "APIExtractor_extract client now self h =
     (case extract_loop client (base_url self @ ''/'' @ endpoint self) (headers_ref self)
             (pagination_key self) (length h) (h @ [h ! params_ref self], [], []) of
        None \<Rightarrow> None
      | Some (h', reqs, r) \<Rightarrow>
          Some (h', reqs,
                case r of
                  Inl e \<Rightarrow> Inl e
                | Inr all_data \<Rightarrow>
                    Inr (ExtractionResult_init (DataFrame all_data) (''api:'' @ name self) now
                           [(''url'', PStr (base_url self @ ''/'' @ endpoint self))] 0)))"
  by (simp add: APIExtractor_extract_def dict_copy_def alloc_def Let_def
      split: option.splits prod.splits sum.splits)

lemma api_one_list_page:
  assumes "headers_ref self < length h"
    and "client [] (base_url self @ ''/'' @ endpoint self, h ! headers_ref self, h ! params_ref self) =
           Inr resp"
    and "is_success resp" and "json resp = Some (PList xs)"
  shows "APIExtractor_extract client now self h =
           Some (h @ [h ! params_ref self],
                 [(base_url self @ ''/'' @ endpoint self, h ! headers_ref self, h ! params_ref self)],
                 Inr (ExtractionResult_init (DataFrame xs) (''api:'' @ name self) now
                        [(''url'', PStr (base_url self @ ''/'' @ endpoint self))] 0))"
proof -
  let ?h1 = "h @ [h ! params_ref self]"
  have hd: "?h1 ! headers_ref self = h ! headers_ref self"
    using assms(1) by (simp add: nth_append)
  have pa: "?h1 ! length h = h ! params_ref self" by simp
  have "client [] (base_url self @ ''/'' @ endpoint self, ?h1 ! headers_ref self, ?h1 ! length h) =
          Inr resp"
    using assms(2) by (simp only: hd pa)
  from extract_loop_list [where client = client and resp = resp and reqs = "[]" and h = ?h1
      and key = "pagination_key self" and all_data = "[]", OF this assms(3,4)]
  show ?thesis
    by (simp only: APIExtractor_extract_loop hd pa) simp
qed

lemma api_two_pages:
  assumes "headers_ref self < length h"
    and "client [] (base_url self @ ''/'' @ endpoint self, h ! headers_ref self, h ! params_ref self) =
           Inr resp1"
    and "is_success resp1" and "json resp1 = Some (PDict d1)"
    and "dict_get d1 ''data'' (dict_get d1 ''items'' (dict_get d1 ''results'' (PList []))) = PList xs1"
    and "next_cursor (pagination_key self) d1 = Some c"
    and "client [(base_url self @ ''/'' @ endpoint self, h ! headers_ref self, h ! params_ref self)]
           (base_url self @ ''/'' @ endpoint self, h ! headers_ref self,
            dict_setitem ''cursor'' c (h ! params_ref self)) = Inr resp2"
    and "is_success resp2" and "json resp2 = Some (PDict d2)"
    and "dict_get d2 ''data'' (dict_get d2 ''items'' (dict_get d2 ''results'' (PList []))) = PList xs2"
    and "next_cursor (pagination_key self) d2 = None"
  shows "APIExtractor_extract client now self h =
           Some (h @ [dict_setitem ''cursor'' c (h ! params_ref self)],
                 [(base_url self @ ''/'' @ endpoint self, h ! headers_ref self, h ! params_ref self),
                  (base_url self @ ''/'' @ endpoint self, h ! headers_ref self,
                   dict_setitem ''cursor'' c (h ! params_ref self))],
                 Inr (ExtractionResult_init (DataFrame (xs1 @ xs2)) (''api:'' @ name self) now
                        [(''url'', PStr (base_url self @ ''/'' @ endpoint self))] 0))"
proof -
  let ?url = "base_url self @ ''/'' @ endpoint self"
  let ?h1 = "h @ [h ! params_ref self]"
  let ?h2 = "h @ [dict_setitem ''cursor'' c (h ! params_ref self)]"
  let ?req1 = "(?url, h ! headers_ref self, h ! params_ref self)"
  have hd1: "?h1 ! headers_ref self = h ! headers_ref self"
    and hd2: "?h2 ! headers_ref self = h ! headers_ref self"
    using assms(1) by (simp_all add: nth_append)
  have pa1: "?h1 ! length h = h ! params_ref self"
    and pa2: "?h2 ! length h = dict_setitem ''cursor'' c (h ! params_ref self)"
    by simp_all
  have st: "store_setitem ?h1 (length h) ''cursor'' c = ?h2"
    by (simp add: store_setitem_def)
  have c1: "client [] (?url, ?h1 ! headers_ref self, ?h1 ! length h) = Inr resp1"
    using assms(2) by (simp only: hd1 pa1)
  have c2: "client ([] @ [?req1]) (?url, ?h2 ! headers_ref self, ?h2 ! length h) = Inr resp2"
    using assms(7) by (simp only: hd2 pa2 append_Nil)
  have "extract_loop client ?url (headers_ref self) (pagination_key self) (length h) (?h1, [], []) =
          extract_loop client ?url (headers_ref self) (pagination_key self) (length h)
            (?h2, [] @ [?req1], [] @ xs1)"
    using extract_loop_next_page [where client = client and resp = resp1 and reqs = "[]" and h = ?h1
        and all_data = "[]", OF c1 assms(3,4,5,6)]
    by (simp only: st hd1 pa1)
  also have "\<dots> = Some (?h2, ([] @ [?req1]) @ [(?url, ?h2 ! headers_ref self, ?h2 ! length h)],
                       Inr (([] @ xs1) @ xs2))"
    by (rule extract_loop_last_page [where client = client and resp = resp2 and h = ?h2,
          OF c2 assms(8,9,10,11)])
  finally show ?thesis
    by (simp only: APIExtractor_extract_loop hd2 pa2) simp
qed

lemma api_extract_frame:
  assumes "headers_ref self < length h"
    and "APIExtractor_extract client now self h = Some (h', reqs, r)"
  shows "length h' = Suc (length h) \<and> (\<forall>a. a < length h \<longrightarrow> h' ! a = h ! a)
    \<and> (\<exists>more. reqs =
          (base_url self @ ''/'' @ endpoint self, h ! headers_ref self, h ! params_ref self) # more)"
proof -
  let ?url = "base_url self @ ''/'' @ endpoint self"
  let ?h1 = "h @ [h ! params_ref self]"
  from assms(2) obtain r0 where
    run: "extract_loop client ?url (headers_ref self) (pagination_key self) (length h) (?h1, [], []) =
            Some (h', reqs, r0)"
    by (auto simp add: APIExtractor_extract_loop split: option.splits)
  from extract_loop_frame [OF run]
  have 1: "\<exists>more. reqs = [] @ (?url, ?h1 ! headers_ref self, ?h1 ! length h) # more"
    and 2: "length h' = length ?h1"
    and 3: "\<forall>a. a \<noteq> length h \<longrightarrow> h' ! a = ?h1 ! a"
    by blast+
  have hd: "?h1 ! headers_ref self = h ! headers_ref self"
    using assms(1) by (simp add: nth_append)
  have "\<forall>a. a < length h \<longrightarrow> h' ! a = h ! a"
    using 3 by (simp add: nth_append)
  then show ?thesis
    using 1 2 hd by simp
qed

section \<open>Pagination of the APIExtractor\<close>

text \<open>
  C7. When the body of a response is a JSON list, the pass through the loop appends its
  elements to \<^verbatim>\<open>all_data\<close> and ends the loop, whatever the pagination key. So an
  extraction whose first response is the list \<open>rs\<close> makes that one request and returns
  a result whose \<^verbatim>\<open>data\<close> has exactly the rows \<open>rs\<close> and whose \<^verbatim>\<open>record_count\<close> is
  their number.
\<close>

theorem bare_list_response_ends_pagination:
  "(client reqs (url, h ! ha, h ! pa) = Inr resp \<and> is_success resp \<and> json resp = Some (PList xs) \<longrightarrow>
      extract_loop client url ha key pa (h, reqs, all_data) =
        Some (h, reqs @ [(url, h ! ha, h ! pa)], Inr (all_data @ xs)))
   \<and> (headers_ref self < length h0
       \<and> client0 [] (base_url self @ ''/'' @ endpoint self, h0 ! headers_ref self, h0 ! params_ref self) =
           Inr resp0
       \<and> is_success resp0 \<and> json resp0 = Some (PList rs) \<longrightarrow>
      APIExtractor_extract client0 now self h0 =
        Some (h0 @ [h0 ! params_ref self],
              [(base_url self @ ''/'' @ endpoint self, h0 ! headers_ref self, h0 ! params_ref self)],
              Inr (ExtractionResult_init (DataFrame rs) (''api:'' @ name self) now
                     [(''url'', PStr (base_url self @ ''/'' @ endpoint self))] 0))
      \<and> map_option (\<lambda>(h', reqs, r). map_sum id (\<lambda>res. (rows (data res), record_count res)) r)
            (APIExtractor_extract client0 now self h0) =
          Some (Inr (rs, int (length rs))))"
proof -
  have loop: "client reqs (url, h ! ha, h ! pa) = Inr resp \<and> is_success resp
        \<and> json resp = Some (PList xs) \<longrightarrow>
      extract_loop client url ha key pa (h, reqs, all_data) =
        Some (h, reqs @ [(url, h ! ha, h ! pa)], Inr (all_data @ xs))"
    using extract_loop_list [where client = client and resp = resp and reqs = reqs and h = h
        and ha = ha and pa = pa and url = url and xs = xs and key = key and all_data = all_data]
    by blast
  have page: "headers_ref self < length h0
       \<and> client0 [] (base_url self @ ''/'' @ endpoint self, h0 ! headers_ref self, h0 ! params_ref self) =
           Inr resp0
       \<and> is_success resp0 \<and> json resp0 = Some (PList rs) \<longrightarrow>
      APIExtractor_extract client0 now self h0 =
        Some (h0 @ [h0 ! params_ref self],
              [(base_url self @ ''/'' @ endpoint self, h0 ! headers_ref self, h0 ! params_ref self)],
              Inr (ExtractionResult_init (DataFrame rs) (''api:'' @ name self) now
                     [(''url'', PStr (base_url self @ ''/'' @ endpoint self))] 0))"
    using api_one_list_page [where client = client0 and resp = resp0 and self = self and h = h0
        and xs = rs and now = now]
    by blast
  have run: "headers_ref self < length h0
       \<and> client0 [] (base_url self @ ''/'' @ endpoint self, h0 ! headers_ref self, h0 ! params_ref self) =
           Inr resp0
       \<and> is_success resp0 \<and> json resp0 = Some (PList rs) \<longrightarrow>
      APIExtractor_extract client0 now self h0 =
        Some (h0 @ [h0 ! params_ref self],
              [(base_url self @ ''/'' @ endpoint self, h0 ! headers_ref self, h0 ! params_ref self)],
              Inr (ExtractionResult_init (DataFrame rs) (''api:'' @ name self) now
                     [(''url'', PStr (base_url self @ ''/'' @ endpoint self))] 0))
      \<and> map_option (\<lambda>(h', reqs, r). map_sum id (\<lambda>res. (rows (data res), record_count res)) r)
            (APIExtractor_extract client0 now self h0) =
          Some (Inr (rs, int (length rs)))"
  proof (intro impI)
    assume a: "headers_ref self < length h0
       \<and> client0 [] (base_url self @ ''/'' @ endpoint self, h0 ! headers_ref self, h0 ! params_ref self) =
           Inr resp0
       \<and> is_success resp0 \<and> json resp0 = Some (PList rs)"
    from page a have eq: "APIExtractor_extract client0 now self h0 =
        Some (h0 @ [h0 ! params_ref self],
              [(base_url self @ ''/'' @ endpoint self, h0 ! headers_ref self, h0 ! params_ref self)],
              Inr (ExtractionResult_init (DataFrame rs) (''api:'' @ name self) now
                     [(''url'', PStr (base_url self @ ''/'' @ endpoint self))] 0))"
      by (rule mp)
    have "map_option (\<lambda>(h', reqs, r). map_sum id (\<lambda>res. (rows (data res), record_count res)) r)
            (APIExtractor_extract client0 now self h0) =
          Some (Inr (rs, int (length rs)))"
      by (simp add: eq data_init record_count_init len_def)
    with eq show "APIExtractor_extract client0 now self h0 =
        Some (h0 @ [h0 ! params_ref self],
              [(base_url self @ ''/'' @ endpoint self, h0 ! headers_ref self, h0 ! params_ref self)],
              Inr (ExtractionResult_init (DataFrame rs) (''api:'' @ name self) now
                     [(''url'', PStr (base_url self @ ''/'' @ endpoint self))] 0))
      \<and> map_option (\<lambda>(h', reqs, r). map_sum id (\<lambda>res. (rows (data res), record_count res)) r)
            (APIExtractor_extract client0 now self h0) =
          Some (Inr (rs, int (length rs)))"
      by (rule conjI)
  qed
  from loop run show ?thesis by (rule conjI)
qed

theorem bare_list_response_ends_pagination_witness:
  "APIExtractor_extract
     (\<lambda>reqs req. Inr \<lparr>status_code = 200, json = Some (PList [PInt 7, PInt 8])\<rparr>)
     (Datetime 2024 5 17 12 30 0 0)
     \<lparr>name = ''users'', base_url = ''https://api.test'', endpoint = ''users'',
      headers_ref = 0, params_ref = 0, pagination_key = Some ''next''\<rparr>
     [[(''limit'', PInt 2)]] =
   Some ([[(''limit'', PInt 2)], [(''limit'', PInt 2)]],
         [(''https://api.test/users'', [(''limit'', PInt 2)], [(''limit'', PInt 2)])],
         Inr (ExtractionResult_init (DataFrame [PInt 7, PInt 8]) ''api:users''
                (Datetime 2024 5 17 12 30 0 0) [(''url'', PStr ''https://api.test/users'')] 0))
   \<and> map_option (\<lambda>(h', reqs, r). map_sum id (\<lambda>res. (rows (data res), record_count res)) r)
       (APIExtractor_extract
          (\<lambda>reqs req. Inr \<lparr>status_code = 200, json = Some (PList [PInt 7, PInt 8])\<rparr>)
          (Datetime 2024 5 17 12 30 0 0)
          \<lparr>name = ''users'', base_url = ''https://api.test'', endpoint = ''users'',
           headers_ref = 0, params_ref = 0, pagination_key = Some ''next''\<rparr>
          [[(''limit'', PInt 2)]]) =
     Some (Inr ([PInt 7, PInt 8], 2))"
proof -
  let ?client = "\<lambda>(reqs :: request list) (req :: request).
      (Inr \<lparr>status_code = 200, json = Some (PList [PInt 7, PInt 8])\<rparr> :: error + response)"
  let ?self = "\<lparr>name = ''users'', base_url = ''https://api.test'', endpoint = ''users'',
      headers_ref = 0, params_ref = 0, pagination_key = Some ''next''\<rparr>"
  have ok: "is_success \<lparr>status_code = 200, json = Some (PList [PInt 7, PInt 8])\<rparr>"
    by (simp add: is_success_def)
  show ?thesis
    using bare_list_response_ends_pagination [where ?client0.0 = ?client and self = ?self
        and ?h0.0 = "[[(''limit'', PInt 2)]]" and rs = "[PInt 7, PInt 8]"
        and ?resp0.0 = "\<lparr>status_code = 200, json = Some (PList [PInt 7, PInt 8])\<rparr>"
        and now = "Datetime 2024 5 17 12 30 0 0"] ok
    by (simp add: data_init record_count_init len_def)
qed

text \<open>
  C3. With the pagination key \<open>next\<close>: when the first response is the mapping
  \<^verbatim>\<open>{"data": [r1, r2], "next": "abc"}\<close> and the response to the second request is the
  mapping \<^verbatim>\<open>{"data": [r3], "next": null}\<close>, \<^verbatim>\<open>extract\<close> makes exactly two requests, the
  second with the extractor's parameters and \<^verbatim>\<open>cursor\<close> set to \<open>abc\<close>, and returns a
  result whose \<^verbatim>\<open>data\<close> has exactly the rows \<open>r1, r2, r3\<close> in that order (and whose
  \<^verbatim>\<open>record_count\<close> is 3).
\<close>

theorem two_page_pagination:
  assumes "pagination_key self = Some ''next''" and "headers_ref self < length h"
    and "map_of d1 = [''data'' \<mapsto> PList [r1, r2], ''next'' \<mapsto> PStr ''abc'']"
    and "map_of d2 = [''data'' \<mapsto> PList [r3], ''next'' \<mapsto> PNone]"
    and "client [] (base_url self @ ''/'' @ endpoint self, h ! headers_ref self, h ! params_ref self) =
           Inr resp1"
    and "is_success resp1" and "json resp1 = Some (PDict d1)"
    and "client [(base_url self @ ''/'' @ endpoint self, h ! headers_ref self, h ! params_ref self)]
           (base_url self @ ''/'' @ endpoint self, h ! headers_ref self,
            dict_setitem ''cursor'' (PStr ''abc'') (h ! params_ref self)) = Inr resp2"
    and "is_success resp2" and "json resp2 = Some (PDict d2)"
  shows "APIExtractor_extract client now self h =
           Some (h @ [dict_setitem ''cursor'' (PStr ''abc'') (h ! params_ref self)],
                 [(base_url self @ ''/'' @ endpoint self, h ! headers_ref self, h ! params_ref self),
                  (base_url self @ ''/'' @ endpoint self, h ! headers_ref self,
                   dict_setitem ''cursor'' (PStr ''abc'') (h ! params_ref self))],
                 Inr (ExtractionResult_init (DataFrame [r1, r2, r3]) (''api:'' @ name self) now
                        [(''url'', PStr (base_url self @ ''/'' @ endpoint self))] 0))
         \<and> map_option (\<lambda>(h', reqs, r). map_sum id (\<lambda>res. (rows (data res), record_count res)) r)
               (APIExtractor_extract client now self h) =
             Some (Inr ([r1, r2, r3], 3))
         \<and> map_of (dict_setitem ''cursor'' (PStr ''abc'') (h ! params_ref self)) ''cursor'' =
             Some (PStr ''abc'')"
proof -
  have rows1: "dict_get d1 ''data'' (dict_get d1 ''items'' (dict_get d1 ''results'' (PList []))) =
                 PList [r1, r2]"
    and rows2: "dict_get d2 ''data'' (dict_get d2 ''items'' (dict_get d2 ''results'' (PList []))) =
                 PList [r3]"
    by (simp_all add: dict_get_def assms(3,4))
  have next1: "next_cursor (pagination_key self) d1 = Some (PStr ''abc'')"
    and next2: "next_cursor (pagination_key self) d2 = None"
    by (simp_all add: next_cursor_def dict_get_def assms(1,3,4))
  have "APIExtractor_extract client now self h =
           Some (h @ [dict_setitem ''cursor'' (PStr ''abc'') (h ! params_ref self)],
                 [(base_url self @ ''/'' @ endpoint self, h ! headers_ref self, h ! params_ref self),
                  (base_url self @ ''/'' @ endpoint self, h ! headers_ref self,
                   dict_setitem ''cursor'' (PStr ''abc'') (h ! params_ref self))],
                 Inr (ExtractionResult_init (DataFrame ([r1, r2] @ [r3])) (''api:'' @ name self) now
                        [(''url'', PStr (base_url self @ ''/'' @ endpoint self))] 0))"
    by (rule api_two_pages [where client = client and ?resp1.0 = resp1 and ?resp2.0 = resp2
          and ?d1.0 = d1 and ?d2.0 = d2,
          OF assms(2) assms(5,6,7) rows1 next1 assms(8,9,10) rows2 next2])
  then show ?thesis
    by (simp add: map_of_dict_setitem data_init record_count_init len_def)
qed

theorem two_page_pagination_witness:
  "APIExtractor_extract
     (\<lambda>reqs req.
        if reqs = []
        then Inr \<lparr>status_code = 200,
                  json = Some (PDict [(''data'', PList [PInt 1, PInt 2]), (''next'', PStr ''abc'')])\<rparr>
        else Inr \<lparr>status_code = 200,
                  json = Some (PDict [(''data'', PList [PInt 3]), (''next'', PNone)])\<rparr>)
     (Datetime 2024 5 17 12 30 0 0)
     \<lparr>name = ''users'', base_url = ''https://api.test'', endpoint = ''users'',
      headers_ref = 0, params_ref = 0, pagination_key = Some ''next''\<rparr>
     [[(''limit'', PInt 2)]] =
   Some ([[(''limit'', PInt 2)], [(''limit'', PInt 2), (''cursor'', PStr ''abc'')]],
         [(''https://api.test/users'', [(''limit'', PInt 2)], [(''limit'', PInt 2)]),
          (''https://api.test/users'', [(''limit'', PInt 2)],
           [(''limit'', PInt 2), (''cursor'', PStr ''abc'')])],
         Inr (ExtractionResult_init (DataFrame [PInt 1, PInt 2, PInt 3]) ''api:users''
                (Datetime 2024 5 17 12 30 0 0) [(''url'', PStr ''https://api.test/users'')] 0))
   \<and> map_option (\<lambda>(h', reqs, r). map_sum id (\<lambda>res. (rows (data res), record_count res)) r)
       (APIExtractor_extract
          (\<lambda>reqs req.
             if reqs = []
             then Inr \<lparr>status_code = 200,
                       json = Some (PDict [(''data'', PList [PInt 1, PInt 2]), (''next'', PStr ''abc'')])\<rparr>
             else Inr \<lparr>status_code = 200,
                       json = Some (PDict [(''data'', PList [PInt 3]), (''next'', PNone)])\<rparr>)
          (Datetime 2024 5 17 12 30 0 0)
          \<lparr>name = ''users'', base_url = ''https://api.test'', endpoint = ''users'',
           headers_ref = 0, params_ref = 0, pagination_key = Some ''next''\<rparr>
          [[(''limit'', PInt 2)]]) =
     Some (Inr ([PInt 1, PInt 2, PInt 3], 3))"
proof -
  let ?resp1 = "\<lparr>status_code = 200,
      json = Some (PDict [(''data'', PList [PInt 1, PInt 2]), (''next'', PStr ''abc'')])\<rparr>"
  let ?resp2 = "\<lparr>status_code = 200,
      json = Some (PDict [(''data'', PList [PInt 3]), (''next'', PNone)])\<rparr>"
  let ?client = "\<lambda>(reqs :: request list) (req :: request).
      (if reqs = [] then Inr ?resp1 else Inr ?resp2 :: error + response)"
  let ?self = "\<lparr>name = ''users'', base_url = ''https://api.test'', endpoint = ''users'',
      headers_ref = 0, params_ref = 0, pagination_key = Some ''next''\<rparr>"
  have ok: "is_success ?resp1" "is_success ?resp2"
    by (simp_all add: is_success_def)
  have m1: "map_of [(''data'', PList [PInt 1, PInt 2]), (''next'', PStr ''abc'')] =
              [''data'' \<mapsto> PList [PInt 1, PInt 2], ''next'' \<mapsto> PStr ''abc'']"
    and m2: "map_of [(''data'', PList [PInt 3]), (''next'', PNone)] =
              [''data'' \<mapsto> PList [PInt 3], ''next'' \<mapsto> PNone]"
    by (auto simp add: fun_eq_iff)
  show ?thesis
    using two_page_pagination [where client = ?client and self = ?self
        and h = "[[(''limit'', PInt 2)]]" and ?resp1.0 = ?resp1 and ?resp2.0 = ?resp2
        and ?d1.0 = "[(''data'', PList [PInt 1, PInt 2]), (''next'', PStr ''abc'')]"
        and ?d2.0 = "[(''data'', PList [PInt 3]), (''next'', PNone)]"
        and now = "Datetime 2024 5 17 12 30 0 0", OF _ _ m1 m2] ok
    by (simp add: data_init record_count_init len_def)
qed

section \<open>What an extraction leaves behind\<close>

text \<open>
  C9. A call of \<^verbatim>\<open>APIExtractor.extract\<close> that returns (with a result or an exception)
  leaves every object that existed before the call as it was: the store after the call is
  the store before it followed by the per-call copy of the parameters. In particular the
  dictionaries behind \<^verbatim>\<open>self.params\<close> and \<^verbatim>\<open>self.headers\<close> are unchanged, the first
  request carries the extractor's own parameters, and so does the first request of any
  later \<^verbatim>\<open>extract\<close> on the same extractor. The extractor's fields themselves are never
  assigned by \<^verbatim>\<open>extract\<close>.
\<close>

theorem extract_leaves_params_unchanged:
  assumes "headers_ref self < length h" and "params_ref self < length h"
    and "APIExtractor_extract client now self h = Some (h', reqs, r)"
  shows "take (length h) h' = h \<and> length h' = Suc (length h)
    \<and> h' ! params_ref self = h ! params_ref self
    \<and> h' ! headers_ref self = h ! headers_ref self
    \<and> (\<exists>more. reqs =
          (base_url self @ ''/'' @ endpoint self, h ! headers_ref self, h ! params_ref self) # more)
    \<and> (\<forall>client2 now2 h2 reqs2 r2.
          APIExtractor_extract client2 now2 self h' = Some (h2, reqs2, r2) \<longrightarrow>
          (\<exists>more. reqs2 =
             (base_url self @ ''/'' @ endpoint self, h ! headers_ref self, h ! params_ref self) # more))"
proof -
  from api_extract_frame [OF assms(1,3)]
  have len: "length h' = Suc (length h)"
    and same: "\<forall>a. a < length h \<longrightarrow> h' ! a = h ! a"
    and first: "\<exists>more. reqs =
          (base_url self @ ''/'' @ endpoint self, h ! headers_ref self, h ! params_ref self) # more"
    by blast+
  have tk: "take (length h) h' = h"
    using len same by (intro nth_equalityI) simp_all
  have p: "h' ! params_ref self = h ! params_ref self"
    and hd: "h' ! headers_ref self = h ! headers_ref self"
    using same assms(1,2) by simp_all
  have wf': "headers_ref self < length h'"
    using assms(1) len by simp
  have again: "\<forall>client2 now2 h2 reqs2 r2.
          APIExtractor_extract client2 now2 self h' = Some (h2, reqs2, r2) \<longrightarrow>
          (\<exists>more. reqs2 =
             (base_url self @ ''/'' @ endpoint self, h ! headers_ref self, h ! params_ref self) # more)"
  proof (intro allI impI)
    fix client2 now2 h2 reqs2 r2
    assume "APIExtractor_extract client2 now2 self h' = Some (h2, reqs2, r2)"
    from api_extract_frame [OF wf' this]
    show "\<exists>more. reqs2 =
             (base_url self @ ''/'' @ endpoint self, h ! headers_ref self, h ! params_ref self) # more"
      by (simp add: p hd)
  qed
  from tk len p hd first again show ?thesis by blast
qed

theorem extract_leaves_params_unchanged_witness:
  "(case APIExtractor_init ''users'' ''https://api.test/'' ''/users'' None (Some 0) (Some ''next'')
          [[(''limit'', PInt 2)]] of
      (self, h) \<Rightarrow>
        (case APIExtractor_extract
                (\<lambda>reqs req.
                   if reqs = []
                   then Inr \<lparr>status_code = 200,
                             json = Some (PDict [(''data'', PList [PInt 1, PInt 2]),
                                                 (''next'', PStr ''abc'')])\<rparr>
                   else Inr \<lparr>status_code = 200,
                             json = Some (PDict [(''data'', PList [PInt 3]), (''next'', PNone)])\<rparr>)
                (Datetime 2024 5 17 12 30 0 0) self h of
           None \<Rightarrow> False
         | Some (h', reqs, r) \<Rightarrow>
             take (length h) h' = h
             \<and> h' ! params_ref self = [(''limit'', PInt 2)]
             \<and> h' ! length h = [(''limit'', PInt 2), (''cursor'', PStr ''abc'')]
             \<and> length reqs = 2))"
proof -
  let ?resp1 = "\<lparr>status_code = 200,
      json = Some (PDict [(''data'', PList [PInt 1, PInt 2]), (''next'', PStr ''abc'')])\<rparr>"
  let ?resp2 = "\<lparr>status_code = 200,
      json = Some (PDict [(''data'', PList [PInt 3]), (''next'', PNone)])\<rparr>"
  let ?client = "\<lambda>(reqs :: request list) (req :: request).
      (if reqs = [] then Inr ?resp1 else Inr ?resp2 :: error + response)"
  let ?now = "Datetime 2024 5 17 12 30 0 0"
  let ?self = "\<lparr>name = ''users'', base_url = ''https://api.test'', endpoint = ''users'',
      headers_ref = Suc 0, params_ref = 0, pagination_key = Some ''next''\<rparr>"
  let ?h = "[[(''limit'', PInt 2)], []] :: store"
  let ?h' = "?h @ [[(''limit'', PInt 2), (''cursor'', PStr ''abc'')]]"
  let ?reqs = "[(''https://api.test/users'', [], [(''limit'', PInt 2)]),
          (''https://api.test/users'', [], [(''limit'', PInt 2), (''cursor'', PStr ''abc'')])]
          :: request list"
  let ?r = "Inr (ExtractionResult_init (DataFrame [PInt 1, PInt 2, PInt 3]) ''api:users'' ?now
                [(''url'', PStr ''https://api.test/users'')] 0) :: error + ExtractionResult"
  have init: "APIExtractor_init ''users'' ''https://api.test/'' ''/users'' None (Some 0) (Some ''next'')
          [[(''limit'', PInt 2)]] = (?self, ?h)"
    by (simp add: APIExtractor_init_def or_empty_def alloc_def rstrip_def lstrip_def)
  have ok: "is_success ?resp1" "is_success ?resp2"
    by (simp_all add: is_success_def)
  have run: "APIExtractor_extract ?client ?now ?self ?h = Some (?h', ?reqs, ?r)"
    using api_two_pages [where client = ?client and self = ?self and h = ?h
        and ?resp1.0 = ?resp1 and ?resp2.0 = ?resp2 and now = ?now
        and ?d1.0 = "[(''data'', PList [PInt 1, PInt 2]), (''next'', PStr ''abc'')]"
        and ?d2.0 = "[(''data'', PList [PInt 3]), (''next'', PNone)]"
        and ?xs1.0 = "[PInt 1, PInt 2]" and ?xs2.0 = "[PInt 3]" and c = "PStr ''abc''"] ok
    by (simp add: dict_get_def next_cursor_def)
  have wf: "headers_ref ?self < length ?h" "params_ref ?self < length ?h"
    by simp_all
  from extract_leaves_params_unchanged [OF wf run]
  have "take (length ?h) ?h' = ?h" and "?h' ! params_ref ?self = ?h ! params_ref ?self"
    by blast+
  then show ?thesis
    by (simp add: init run)
qed

section \<open>Extractors without an incremental override\<close>

text \<open>
  C4. \<^verbatim>\<open>FileExtractor\<close> and \<^verbatim>\<open>APIExtractor\<close> inherit \<^verbatim>\<open>extract_incremental\<close> from the
  base class: for every \<^verbatim>\<open>since\<close>, \<^verbatim>\<open>None\<close> or a timestamp, it does what \<^verbatim>\<open>extract\<close>
  does on the same extractor with the same collaborators: the same calls, the same
  result, the same store, and it does not return where \<^verbatim>\<open>extract\<close> does not.
\<close>

theorem inherited_extract_incremental_is_extract:
  "FileExtractor_extract_incremental pd now fself since = FileExtractor_extract pd now fself
   \<and> APIExtractor_extract_incremental client now aself since h =
       APIExtractor_extract client now aself h"
  by (simp add: FileExtractor_extract_incremental_def APIExtractor_extract_incremental_def
      extract_incremental_def)

theorem inherited_extract_incremental_is_extract_witness:
  "FileExtractor_extract_incremental (\<lambda>dec path opts. Inr (DataFrame [PInt 1]))
       (Datetime 2024 6 2 8 0 0 0) (FileExtractor_init ''f'' ''a.csv'' None [])
       (Some (Datetime 2024 5 17 12 30 0 0)) =
     ([(read_csv, ''a.csv'', [])],
      Inr (ExtractionResult_init (DataFrame [PInt 1]) ''file:a.csv'' (Datetime 2024 6 2 8 0 0 0)
             [(''format'', PStr ''csv''), (''path'', PStr ''a.csv'')] 0))
   \<and> APIExtractor_extract_incremental
       (\<lambda>reqs req. Inr \<lparr>status_code = 200, json = Some (PList [PInt 7, PInt 8])\<rparr>)
       (Datetime 2024 6 2 8 0 0 0)
       \<lparr>name = ''users'', base_url = ''https://api.test'', endpoint = ''users'',
        headers_ref = 0, params_ref = 0, pagination_key = None\<rparr>
       (Some (Datetime 2024 5 17 12 30 0 0)) [[(''limit'', PInt 2)]] =
     Some ([[(''limit'', PInt 2)], [(''limit'', PInt 2)]],
           [(''https://api.test/users'', [(''limit'', PInt 2)], [(''limit'', PInt 2)])],
           Inr (ExtractionResult_init (DataFrame [PInt 7, PInt 8]) ''api:users''
                  (Datetime 2024 6 2 8 0 0 0) [(''url'', PStr ''https://api.test/users'')] 0))"
proof -
  let ?pd = "\<lambda>(dec::decoder) (path::string) (opts::pydict). (Inr (DataFrame [PInt 1]) :: error + DataFrame)"
  let ?now = "Datetime 2024 6 2 8 0 0 0"
  let ?since = "Some (Datetime 2024 5 17 12 30 0 0)"
  let ?fself = "FileExtractor_init ''f'' ''a.csv'' None []"
  let ?resp = "\<lparr>status_code = 200, json = Some (PList [PInt 7, PInt 8])\<rparr>"
  let ?client = "\<lambda>(reqs :: request list) (req :: request). (Inr ?resp :: error + response)"
  let ?aself = "\<lparr>name = ''users'', base_url = ''https://api.test'', endpoint = ''users'',
        headers_ref = 0, params_ref = 0, pagination_key = None\<rparr>"
  let ?h = "[[(''limit'', PInt 2)]] :: store"
  have f: "?fself = \<lparr>name = ''f'', file_path = ''a.csv'', file_format = ''csv'', read_options = []\<rparr>"
  proof -
    have "detect_format ''a.csv'' = ''csv''" by code_simp
    then show ?thesis by (simp add: FileExtractor_init_def)
  qed
  have fx: "FileExtractor_extract ?pd ?now ?fself =
     ([(read_csv, ''a.csv'', [])],
      Inr (ExtractionResult_init (DataFrame [PInt 1]) ''file:a.csv'' ?now
             [(''format'', PStr ''csv''), (''path'', PStr ''a.csv'')] 0))"
    by (simp add: f FileExtractor_extract_def)
  have ok: "is_success ?resp" by (simp add: is_success_def)
  have ax: "APIExtractor_extract ?client ?now ?aself ?h =
     Some ([[(''limit'', PInt 2)], [(''limit'', PInt 2)]],
           [(''https://api.test/users'', [(''limit'', PInt 2)], [(''limit'', PInt 2)])],
           Inr (ExtractionResult_init (DataFrame [PInt 7, PInt 8]) ''api:users'' ?now
                  [(''url'', PStr ''https://api.test/users'')] 0))"
    using api_one_list_page [where client = ?client and self = ?aself and h = ?h and resp = ?resp
        and xs = "[PInt 7, PInt 8]" and now = ?now] ok
    by simp
  show ?thesis
    using inherited_extract_incremental_is_extract [of ?pd ?now ?fself ?since ?client ?aself ?h]
    by (simp only: fx ax)
qed

end
